theory Spec2Isabelle
  imports Main "HOL-Library.AList"
begin

section \<open>Python values and builtins used by the pipeline\<close>

text \<open>
  Exceptions are values. Only the classes the repository's \<open>except\<close> clauses tell apart
  are kept separate: \<open>ValueError\<close> and \<open>TypeError\<close> are caught by the inner handler of
  \<open>fetch_trending_keywords\<close>, everything else only by an \<open>except Exception\<close>.
\<close>

datatype exn = ValueError | TypeError | KeyError | InvalidId | CollaboratorError string

text \<open>The members of \<open>class Region(Enum)\<close> in \<open>lib/region.py\<close>.\<close>

datatype region = TAIWAN | HONG_KONG | JAPAN | KOREA | USA | SINGAPORE | GLOBAL

text \<open>
  The scalar Python values a fetcher record can carry. Text is a list of 8-bit characters
  read as code points below 256; floats and nested containers are not modelled.
\<close>

datatype pyval = PNone | PBool bool | PInt int | PStr string | PRegion region

definition is_digit :: "char \<Rightarrow> bool" where
  "is_digit c = (48 \<le> (of_char c :: nat) \<and> (of_char c :: nat) \<le> 57)"

definition digit_val :: "char \<Rightarrow> nat" where
  "digit_val c = of_char c - 48"

text \<open>\<open>str.isspace\<close> on the code points below 256.\<close>

definition is_space :: "char \<Rightarrow> bool" where
  "is_space c = (let n = (of_char c :: nat) in
     (9 \<le> n \<and> n \<le> 13) \<or> (28 \<le> n \<and> n \<le> 32) \<or> n = 133 \<or> n = 160)"

text \<open>\<open>str.strip()\<close>: whitespace is removed at both ends.\<close>

definition strip :: "string \<Rightarrow> string" where
  "strip s = rev (dropWhile is_space (rev (dropWhile is_space s)))"

text \<open>
  The digits of a decimal literal as \<open>int()\<close> reads them: a digit first, then digits with
  single underscores allowed between two digits.
\<close>

fun digits_acc :: "nat \<Rightarrow> string \<Rightarrow> nat option" where
  "digits_acc a [] = Some a"
| "digits_acc a (c # cs) =
     (if is_digit c then digits_acc (10 * a + digit_val c) cs
      else if c = CHR ''_'' then
        (case cs of
           [] \<Rightarrow> None
         | d # ds \<Rightarrow> if is_digit d then digits_acc (10 * a + digit_val d) ds else None)
      else None)"

definition parse_nat :: "string \<Rightarrow> nat option" where
  "parse_nat s = (case s of
       [] \<Rightarrow> None
     | c # cs \<Rightarrow> if is_digit c then digits_acc (digit_val c) cs else None)"

text \<open>The value of a digit string read left to right from \<open>a\<close>.\<close>

definition digits_value :: "nat \<Rightarrow> string \<Rightarrow> nat" where
  "digits_value a s = foldl (\<lambda>a c. 10 * a + digit_val c) a s"

text \<open>
  The interpreter's default limit on the digits of an integer converted from or to text
  (CPython 3.10.7 and later): beyond it, \<open>int(s)\<close> and \<open>str(i)\<close> raise ValueError.
\<close>

definition max_str_digits :: nat where
  "max_str_digits = 4300"

text \<open>\<open>int(s)\<close> for a string, base 10: strip, an optional sign, digits; else ValueError.\<close>

definition int_of_str :: "string \<Rightarrow> exn + int" where
  "int_of_str s =
     (case strip s of
        [] \<Rightarrow> Inl ValueError
      | c # cs \<Rightarrow>
          if max_str_digits < length (filter is_digit (c # cs)) then Inl ValueError
          else if c = CHR ''-'' then
            (case parse_nat cs of None \<Rightarrow> Inl ValueError | Some n \<Rightarrow> Inr (- int n))
          else if c = CHR ''+'' then
            (case parse_nat cs of None \<Rightarrow> Inl ValueError | Some n \<Rightarrow> Inr (int n))
          else
            (case parse_nat (c # cs) of None \<Rightarrow> Inl ValueError | Some n \<Rightarrow> Inr (int n)))"

text \<open>\<open>int(x)\<close>: None and an enum member are a TypeError, a bool is 0 or 1.\<close>

fun py_int :: "pyval \<Rightarrow> exn + int" where
  "py_int PNone = Inl TypeError"
| "py_int (PBool b) = Inr (if b then 1 else 0)"
| "py_int (PInt i) = Inr i"
| "py_int (PStr s) = int_of_str s"
| "py_int (PRegion r) = Inl TypeError"

definition digit_chars :: string where
  "digit_chars = ''0123456789''"

fun dec :: "nat \<Rightarrow> string" where
  "dec n = (if n < 10 then [digit_chars ! n] else dec (n div 10) @ [digit_chars ! (n mod 10)])"

declare dec.simps [simp del]

text \<open>\<open>Region.value\<close>.\<close>

fun region_value :: "region \<Rightarrow> string" where
  "region_value TAIWAN = ''TW''"
| "region_value HONG_KONG = ''HK''"
| "region_value JAPAN = ''JP''"
| "region_value KOREA = ''KR''"
| "region_value USA = ''US''"
| "region_value SINGAPORE = ''SG''"
| "region_value GLOBAL = ''GLOBAL''"

text \<open>
  \<open>str(x)\<close>; \<open>Region.__str__\<close> returns the member's value. An integer beyond the digit
  limit is a ValueError.
\<close>

fun py_str :: "pyval \<Rightarrow> exn + string" where
  "py_str PNone = Inr ''None''"
| "py_str (PBool b) = Inr (if b then ''True'' else ''False'')"
| "py_str (PInt i) =
     (if max_str_digits < length (dec (nat \<bar>i\<bar>)) then Inl ValueError
      else Inr (if i < 0 then CHR ''-'' # dec (nat (- i)) else dec (nat i)))"
| "py_str (PStr s) = Inr s"
| "py_str (PRegion r) = Inr (region_value r)"

section \<open>util/fmt_parser.py\<close>

text \<open>\<open>duration.replace('PT', '')\<close>: every non-overlapping occurrence, left to right.\<close>

fun remove_PT :: "string \<Rightarrow> string" where
  "remove_PT (a # b # cs) =
     (if a = CHR ''P'' \<and> b = CHR ''T'' then remove_PT cs else a # remove_PT (b # cs))"
| "remove_PT cs = cs"

text \<open>\<open>s.split(sep)\<close> for a one-character separator.\<close>

fun split_on :: "char \<Rightarrow> string \<Rightarrow> string list" where
  "split_on sep [] = [[]]"
| "split_on sep (c # cs) =
     (if c = sep then [] # split_on sep cs
      else (case split_on sep cs of [] \<Rightarrow> [[c]] | p # ps \<Rightarrow> (c # p) # ps))"

text \<open>
  One of the three blocks of \<open>parse_duration\<close>:
  \<^verbatim>\<open>if 'H' in duration: hours, duration = duration.split('H'); seconds += int(hours) * 3600\<close>.
  Unpacking a split of any length but two raises ValueError, as \<open>int\<close> does on a bad number.
\<close>

definition take_unit :: "char \<Rightarrow> int \<Rightarrow> int \<times> string \<Rightarrow> exn + (int \<times> string)" where
  "take_unit u mult st =
     (case st of (seconds, duration) \<Rightarrow>
        if u \<in> set duration then
          (case split_on u duration of
             [v, rest] \<Rightarrow>
               (case int_of_str v of
                  Inl e \<Rightarrow> Inl e
                | Inr n \<Rightarrow> Inr (seconds + n * mult, rest))
           | _ \<Rightarrow> Inl ValueError)
        else Inr (seconds, duration))"

definition parse_duration :: "string \<Rightarrow> exn + int" where
  "parse_duration duration =
     (case take_unit (CHR ''H'') 3600 (0, remove_PT duration) of
        Inl e \<Rightarrow> Inl e
      | Inr st1 \<Rightarrow>
          (case take_unit (CHR ''M'') 60 st1 of
             Inl e \<Rightarrow> Inl e
           | Inr st2 \<Rightarrow>
               (case take_unit (CHR ''S'') 1 st2 of
                  Inl e \<Rightarrow> Inl e
                | Inr st3 \<Rightarrow> Inr (fst st3))))"

text \<open>A duration text built from optional hour, minute and second tokens.\<close>

definition token :: "nat option \<Rightarrow> char \<Rightarrow> string" where
  "token v u = (case v of None \<Rightarrow> [] | Some n \<Rightarrow> dec n @ [u])"

definition contribution :: "nat option \<Rightarrow> int" where
  "contribution v = (case v of None \<Rightarrow> 0 | Some n \<Rightarrow> int n)"

text \<open>The number of a token, when there is one, stays within the digit limit.\<close>

definition within_limit :: "nat option \<Rightarrow> bool" where
  "within_limit v = (case v of None \<Rightarrow> True | Some n \<Rightarrow> length (dec n) \<le> max_str_digits)"

section \<open>lib/region.py\<close>

definition all_regions :: "region list" where
  "all_regions = [TAIWAN, HONG_KONG, JAPAN, KOREA, USA, SINGAPORE, GLOBAL]"

text \<open>
  \<open>str.upper()\<close> on ASCII letters; the case mapping of other characters is outside the
  model (they are left as they are).
\<close>

definition upper_char :: "char \<Rightarrow> char" where
  "upper_char c = (let n = (of_char c :: nat) in
     if 97 \<le> n \<and> n \<le> 122 then char_of (n - 32) else c)"

definition upper :: "string \<Rightarrow> string" where
  "upper s = map upper_char s"

text \<open>
  \<open>Region.from_code\<close>: \<open>cls(code.upper())\<close> looks the member up by value and raises
  ValueError when there is none, which the method turns into \<open>None\<close>.
\<close>

definition from_code :: "string \<Rightarrow> region option" where
  "from_code code = find (\<lambda>r. region_value r = upper code) all_regions"

definition is_valid_code :: "string \<Rightarrow> bool" where
  "is_valid_code code = (upper code \<in> set (map region_value all_regions))"

section \<open>db/base.py\<close>

text \<open>
  A collection of the document store: documents in insertion order, each under its
  \<open>_id\<close>. An ObjectId is kept in the form \<open>str\<close> gives it, 24 lower-case hexadecimal
  digits. Timestamps are the clock's readings in the store's resolution (milliseconds),
  as integers. Store input/output failures are outside the model.
\<close>

type_synonym 'd coll = "(string \<times> 'd) list"

record stamps =
  created_at :: int
  updated_at :: int

record keyword_doc = stamps +
  kw_keyword :: string
  kw_rank :: int
  kw_score :: int
  kw_platform :: string
  kw_region :: string
  kw_metadata :: "(string \<times> pyval) list"

record video_doc = stamps +
  keyword_id :: string
  video_category :: string
  video_thumbnail_url :: string
  video_url :: string
  video_youtube_id :: string
  video_title :: string
  video_duration :: int
  video_views :: int
  video_likes :: int
  video_language :: string
  video_comments :: int

record transcript_doc = stamps +
  tr_video_id :: string
  tr_transcript :: string
  tr_language :: string

record article_doc = stamps +
  art_keyword_id :: string
  art_transcript_id :: string
  art_video_id :: string
  article_language :: string
  art_title :: string
  art_content :: string
  art_tags :: string
  seo_metadata :: "(string \<times> pyval) list"
  published :: bool

text \<open>What \<open>run()\<close> writes to the log; the messages of the stages are not modelled.\<close>

datatype log_event = Fetched nat | Found nat | Downloaded nat | Completed | WorkflowError exn

text \<open>
  The state the program works on: the system clock (the reading of the \<open>n\<close>-th call of
  \<open>datetime.now()\<close> or \<open>datetime.utcnow()\<close>, and how many calls were made), the counter
  the driver draws fresh ObjectIds from, the four collections and the log.
\<close>

record world =
  clock :: "nat \<Rightarrow> int"
  reads :: nat
  next_oid :: nat
  keywords_db :: "keyword_doc coll"
  videos_db :: "video_doc coll"
  transcripts_db :: "transcript_doc coll"
  articles_db :: "article_doc coll"
  logs :: "log_event list"

definition hex_chars :: string where
  "hex_chars = ''0123456789abcdef''"

fun to_hex :: "nat \<Rightarrow> nat \<Rightarrow> string" where
  "to_hex 0 n = []"
| "to_hex (Suc k) n = to_hex k (n div 16) @ [hex_chars ! (n mod 16)]"

text \<open>\<open>str(result.inserted_id)\<close> of the \<open>n\<close>-th ObjectId the driver generates.\<close>

definition oid_str :: "nat \<Rightarrow> string" where
  "oid_str n = to_hex 24 n"

definition is_hex :: "char \<Rightarrow> bool" where
  "is_hex c = (let n = (of_char c :: nat) in
     (48 \<le> n \<and> n \<le> 57) \<or> (97 \<le> n \<and> n \<le> 102) \<or> (65 \<le> n \<and> n \<le> 70))"

definition lower_char :: "char \<Rightarrow> char" where
  "lower_char c = (let n = (of_char c :: nat) in
     if 65 \<le> n \<and> n \<le> 90 then char_of (n + 32) else c)"

text \<open>
  \<open>bson.ObjectId(s)\<close> for a string: 24 hexadecimal digits in either case, or
  \<open>InvalidId\<close> is raised.
\<close>

definition ObjectId :: "string \<Rightarrow> exn + string" where
  "ObjectId s =
     (if length s = 24 \<and> list_all is_hex s then Inr (map lower_char s) else Inl InvalidId)"

definition utcnow :: "world \<Rightarrow> int \<times> world" where
  "utcnow w = (clock w (reads w), w\<lparr>reads := Suc (reads w)\<rparr>)"

text \<open>
  \<open>BaseDB.insert_one\<close>: both stamps are overwritten, each with a reading of its own, the
  document is appended under a fresh id, and the id's string is returned.
\<close>

definition insert_one ::
  "'a stamps_scheme \<Rightarrow> 'a stamps_scheme coll \<Rightarrow> world
     \<Rightarrow> (string \<times> 'a stamps_scheme coll) \<times> world" where
  "insert_one data c w =
     (case utcnow w of (t1, w1) \<Rightarrow>
      case utcnow w1 of (t2, w2) \<Rightarrow>
        (let data' = data\<lparr>created_at := t1, updated_at := t2\<rparr>;
             oid = oid_str (next_oid w2)
         in ((oid, c @ [(oid, data')]), w2\<lparr>next_oid := Suc (next_oid w2)\<rparr>)))"

text \<open>\<open>BaseDB.find_one\<close> for the query \<open>{'_id': id}\<close>.\<close>

definition find_one :: "'d coll \<Rightarrow> string \<Rightarrow> 'd option" where
  "find_one c oid = map_of c oid"

text \<open>\<open>BaseDB.find_by_id\<close>: the conversion is not guarded.\<close>

definition find_by_id :: "'d coll \<Rightarrow> string \<Rightarrow> exn + 'd option" where
  "find_by_id c ident =
     (case ObjectId ident of
        Inl e \<Rightarrow> Inl e
      | Inr oid \<Rightarrow> Inr (find_one c oid))"

text \<open>
  \<open>BaseDB.update_one\<close> for the query \<open>{'_id': oid}\<close>: \<open>set_fields\<close> is the \<open>$set\<close> of the
  caller's \<open>update_data\<close>, to which the new \<open>updated_at\<close> is added. The store counts the
  document as modified when the update changes it; the result is
  \<open>modified_count > 0\<close>.
\<close>

definition update_one ::
  "string \<Rightarrow> ('a stamps_scheme \<Rightarrow> 'a stamps_scheme) \<Rightarrow> 'a stamps_scheme coll \<Rightarrow> world
     \<Rightarrow> (bool \<times> 'a stamps_scheme coll) \<times> world" where
  "update_one oid set_fields c w =
     (case utcnow w of (t, w1) \<Rightarrow>
        (case map_of c oid of
           None \<Rightarrow> ((False, c), w1)
         | Some d \<Rightarrow>
             (let d' = (set_fields d)\<lparr>updated_at := t\<rparr>
              in ((d' \<noteq> d, AList.update oid d' c), w1))))"

section \<open>db/keywords.py, db/videos.py, db/transcripts.py, db/articles.py\<close>

text \<open>The \<open>metadata\<close> of a record: \<open>None\<close> or a dict.\<close>

datatype pymeta = MetaNone | MetaDict "(string \<times> pyval) list"

fun isinstance_str :: "pyval \<Rightarrow> bool" where
  "isinstance_str (PStr s) = True"
| "isinstance_str v = False"

text \<open>\<open>isinstance(x, int)\<close> holds of a bool too.\<close>

fun isinstance_int :: "pyval \<Rightarrow> bool" where
  "isinstance_int (PInt i) = True"
| "isinstance_int (PBool b) = True"
| "isinstance_int v = False"

fun str_of :: "pyval \<Rightarrow> string" where
  "str_of (PStr s) = s"
| "str_of v = []"

fun int_of :: "pyval \<Rightarrow> int" where
  "int_of (PInt i) = i"
| "int_of (PBool b) = (if b then 1 else 0)"
| "int_of v = 0"

text \<open>
  \<open>KeywordsDB.insert_keyword\<close>: the type checks, \<open>now = datetime.now()\<close>, the document
  with both stamps set to \<open>now\<close>, then \<open>insert_one\<close>.
\<close>

definition insert_keyword ::
  "pyval \<Rightarrow> pyval \<Rightarrow> pyval \<Rightarrow> pyval \<Rightarrow> pyval \<Rightarrow> pymeta \<Rightarrow> world \<Rightarrow> (exn + string) \<times> world" where
  "insert_keyword keyword rank score platform region metadata w =
     (if \<not> isinstance_str keyword then (Inl TypeError, w)
      else if \<not> isinstance_int rank then (Inl TypeError, w)
      else if \<not> isinstance_int score then (Inl TypeError, w)
      else if \<not> isinstance_str platform then (Inl TypeError, w)
      else if \<not> isinstance_str region then (Inl TypeError, w)
      else
        (case utcnow w of (now, w1) \<Rightarrow>
           (let doc = \<lparr>created_at = now, updated_at = now,
                      kw_keyword = str_of keyword, kw_rank = int_of rank,
                      kw_score = int_of score, kw_platform = str_of platform,
                      kw_region = str_of region,
                      kw_metadata = (case metadata of MetaNone \<Rightarrow> [] | MetaDict d \<Rightarrow> d)\<rparr>
            in case insert_one doc (keywords_db w1) w1 of
                 ((result, c), w2) \<Rightarrow> (Inr result, w2\<lparr>keywords_db := c\<rparr>))))"

text \<open>
  \<open>VideosDB.insert_video\<close>. The arguments are typed as \<open>search_videos\<close> passes them; the
  one type check that can fail there is on the thumbnail, which the searcher leaves
  \<open>None\<close> for a video without thumbnails.
\<close>

definition insert_video ::
  "string \<Rightarrow> string \<Rightarrow> string option \<Rightarrow> string \<Rightarrow> string \<Rightarrow> string \<Rightarrow> int \<Rightarrow> int \<Rightarrow> int
     \<Rightarrow> string \<Rightarrow> int \<Rightarrow> world \<Rightarrow> (exn + string) \<times> world" where
  "insert_video kid category thumbnail url youtube_id title duration views likes language
       comments w =
     (case thumbnail of
        None \<Rightarrow> (Inl TypeError, w)
      | Some thumb \<Rightarrow>
          (case utcnow w of (now, w1) \<Rightarrow>
             (case ObjectId kid of
                Inl e \<Rightarrow> (Inl e, w1)
              | Inr koid \<Rightarrow>
                  (let doc = \<lparr>created_at = now, updated_at = now,
                             keyword_id = koid, video_category = category,
                             video_thumbnail_url = thumb, video_url = url,
                             video_youtube_id = youtube_id, video_title = title,
                             video_duration = duration, video_views = views,
                             video_likes = likes, video_language = language,
                             video_comments = comments\<rparr>
                   in case insert_one doc (videos_db w1) w1 of
                        ((result, c), w2) \<Rightarrow> (Inr result, w2\<lparr>videos_db := c\<rparr>)))))"

definition insert_transcript :: "string \<Rightarrow> string \<Rightarrow> string \<Rightarrow> world \<Rightarrow> (exn + string) \<times> world" where
  "insert_transcript vid text language w =
     (case utcnow w of (now, w1) \<Rightarrow>
        (case ObjectId vid of
           Inl e \<Rightarrow> (Inl e, w1)
         | Inr void \<Rightarrow>
             (let doc = \<lparr>created_at = now, updated_at = now,
                        tr_video_id = void, tr_transcript = text, tr_language = language\<rparr>
              in case insert_one doc (transcripts_db w1) w1 of
                   ((result, c), w2) \<Rightarrow> (Inr result, w2\<lparr>transcripts_db := c\<rparr>))))"

text \<open>
  \<open>ArticlesDB.update_publish_status\<close>: any exception of the body, the id conversion's
  included, is caught and reported as \<open>False\<close>.
\<close>

definition update_publish_status :: "string \<Rightarrow> bool \<Rightarrow> world \<Rightarrow> bool \<times> world" where
  "update_publish_status article_id v w =
     (case ObjectId article_id of
        Inl e \<Rightarrow> (False, w)
      | Inr oid \<Rightarrow>
          (case update_one oid (\<lambda>d. d\<lparr>published := v\<rparr>) (articles_db w) w of
             ((result, c), w1) \<Rightarrow> (result, w1\<lparr>articles_db := c\<rparr>)))"

section \<open>workflow/daily.py\<close>

text \<open>
  A record as a fetcher returns it: a dict in which each of the four keys may be absent
  (\<open>None\<close> here) or carry a value.
\<close>

record raw_keyword =
  rk_keyword :: "pyval option"
  rk_rank :: "pyval option"
  rk_score :: "pyval option"
  rk_metadata :: "pymeta option"

text \<open>A result of \<open>YouTubeSearcher.search\<close>, with the types the searcher builds it with.\<close>

record yt_video =
  yv_video_id :: string
  yv_title :: string
  yv_url :: string
  yv_thumbnail_url :: "string option"
  yv_duration :: string
  yv_view_count :: int
  yv_like_count :: int
  yv_comment_count :: int

text \<open>
  A key of \<open>self.keyword_fetchers\<close>: an entry of \<open>config['regions']\<close>, which the fetchers'
  constructor accepts only as a string or a Region member.
\<close>

datatype region_key = RegionName string | RegionMember region

text \<open>
  The collaborators of a \<open>DailyWorkflow\<close>: \<open>self.keyword_fetchers\<close> as the regions in
  order, each with its platforms and what \<open>fetch()\<close> of that fetcher gives;
  \<open>yt_searcher.search(query, max_results, published_after, region_code)\<close>;
  \<open>yt_downloader.download_video(url, extract_audio=False)['video']\<close>;
  \<open>transcriber.transcribe(path)\<close> with its \<open>text\<close> and \<open>language\<close>.
\<close>

record collaborators =
  keyword_fetchers :: "(region_key \<times> (string \<times> (exn + raw_keyword list)) list) list"
  yt_search :: "string \<Rightarrow> nat \<Rightarrow> int \<Rightarrow> string \<Rightarrow> exn + yt_video list"
  download_video :: "string \<Rightarrow> exn + string"
  transcribe :: "string \<Rightarrow> exn + (string \<times> string)"

text \<open>
  \<^verbatim>\<open>metadata = keyword_data.get('metadata', {})\<close> and the conversion of a Region member
  under \<open>'region'\<close>; \<open>'region' in None\<close> is a TypeError, raised before the inner \<open>try\<close>.
\<close>

definition convert_metadata :: "pymeta option \<Rightarrow> exn + (string \<times> pyval) list" where
  "convert_metadata m =
     (case m of
        None \<Rightarrow> Inr []
      | Some MetaNone \<Rightarrow> Inl TypeError
      | Some (MetaDict d) \<Rightarrow>
          (case map_of d ''region'' of
             Some (PRegion r) \<Rightarrow> Inr (AList.update ''region'' (PStr (region_value r)) d)
           | _ \<Rightarrow> Inr d))"

text \<open>\<^verbatim>\<open>score = keyword_data.get('score')\<close>, with 0 for \<open>None\<close>.\<close>

definition get_score :: "raw_keyword \<Rightarrow> pyval" where
  "get_score kd = (case rk_score kd of None \<Rightarrow> PInt 0 | Some PNone \<Rightarrow> PInt 0 | Some v \<Rightarrow> v)"

text \<open>
  The body of the inner \<open>try\<close>: the entries of \<open>insert_data\<close> in the order they are
  evaluated (a missing key is a KeyError), then \<open>insert_keyword\<close>.
\<close>

definition keyword_try ::
  "region_key \<Rightarrow> string \<Rightarrow> raw_keyword \<Rightarrow> pyval \<Rightarrow> (string \<times> pyval) list \<Rightarrow> world
     \<Rightarrow> (exn + string) \<times> world" where
  "keyword_try region platform kd score metadata w =
     (case rk_keyword kd of
        None \<Rightarrow> (Inl KeyError, w)
      | Some k \<Rightarrow>
          (case py_str k of
             Inl e \<Rightarrow> (Inl e, w)
           | Inr keyword \<Rightarrow>
               (case rk_rank kd of
                  None \<Rightarrow> (Inl KeyError, w)
                | Some r \<Rightarrow>
                    (case py_int r of
                       Inl e \<Rightarrow> (Inl e, w)
                     | Inr rank \<Rightarrow>
                         (case py_int score of
                            Inl e \<Rightarrow> (Inl e, w)
                          | Inr sc \<Rightarrow>
                              insert_keyword (PStr keyword) (PInt rank) (PInt sc)
                                (PStr platform)
                                (PStr (case region of
                                         RegionMember x \<Rightarrow> region_value x
                                       | RegionName n \<Rightarrow> n))
                                (MetaDict metadata) w)))))"

text \<open>
  One iteration of \<open>for keyword_data in keywords\<close>: \<open>Inr (Some id)\<close> when the record was
  inserted, \<open>Inr None\<close> when \<open>except (ValueError, TypeError)\<close> dropped it, \<open>Inl e\<close> when
  an exception leaves the loop.
\<close>

definition process_keyword ::
  "region_key \<Rightarrow> string \<Rightarrow> raw_keyword \<Rightarrow> world \<Rightarrow> (exn + string option) \<times> world" where
  "process_keyword region platform kd w =
     (case convert_metadata (rk_metadata kd) of
        Inl e \<Rightarrow> (Inl e, w)
      | Inr metadata \<Rightarrow>
          (case keyword_try region platform kd (get_score kd) metadata w of
             (Inl e, w1) \<Rightarrow>
               if e = ValueError \<or> e = TypeError then (Inr None, w1) else (Inl e, w1)
           | (Inr new_id, w1) \<Rightarrow> (Inr (Some new_id), w1)))"

text \<open>
  The loop over one fetcher's records. An exception that leaves it ends the loop; the ids
  appended so far stay in \<open>keyword_ids\<close>.
\<close>

fun process_batch ::
  "region_key \<Rightarrow> string \<Rightarrow> raw_keyword list \<Rightarrow> string list \<Rightarrow> world
     \<Rightarrow> (exn option \<times> string list) \<times> world" where
  "process_batch region platform [] keyword_ids w = ((None, keyword_ids), w)"
| "process_batch region platform (kd # kds) keyword_ids w =
     (case process_keyword region platform kd w of
        (Inl e, w1) \<Rightarrow> ((Some e, keyword_ids), w1)
      | (Inr None, w1) \<Rightarrow> process_batch region platform kds keyword_ids w1
      | (Inr (Some new_id), w1) \<Rightarrow>
          process_batch region platform kds (keyword_ids @ [new_id]) w1)"

text \<open>
  The loop over one region's fetchers: the outer \<open>try\<close> covers \<open>fetch()\<close> and the record
  loop, and \<open>except Exception\<close> goes on with the next fetcher.
\<close>

fun run_fetchers ::
  "region_key \<Rightarrow> (string \<times> (exn + raw_keyword list)) list \<Rightarrow> string list \<Rightarrow> world
     \<Rightarrow> string list \<times> world" where
  "run_fetchers region [] keyword_ids w = (keyword_ids, w)"
| "run_fetchers region ((platform, fetched) # fs) keyword_ids w =
     (case fetched of
        Inl e \<Rightarrow> run_fetchers region fs keyword_ids w
      | Inr kds \<Rightarrow>
          (case process_batch region platform kds keyword_ids w of
             ((_, keyword_ids1), w1) \<Rightarrow> run_fetchers region fs keyword_ids1 w1))"

fun run_regions ::
  "(region_key \<times> (string \<times> (exn + raw_keyword list)) list) list \<Rightarrow> string list \<Rightarrow> world
     \<Rightarrow> string list \<times> world" where
  "run_regions [] keyword_ids w = (keyword_ids, w)"
| "run_regions ((region, fetchers) # rs) keyword_ids w =
     (case run_fetchers region fetchers keyword_ids w of
        (keyword_ids1, w1) \<Rightarrow> run_regions rs keyword_ids1 w1)"

definition fetch_trending_keywords :: "collaborators \<Rightarrow> world \<Rightarrow> string list \<times> world" where
  "fetch_trending_keywords cfg w = run_regions (keyword_fetchers cfg) [] w"

text \<open>
  The inner loop of \<open>search_videos\<close>, \<open>for video in videos\<close>. Nothing is caught: a
  duration that does not parse or a failing insert leaves the loop and the method.
\<close>

fun insert_videos ::
  "string \<Rightarrow> yt_video list \<Rightarrow> string list \<Rightarrow> world \<Rightarrow> (exn + string list) \<times> world" where
  "insert_videos kid [] video_ids w = (Inr video_ids, w)"
| "insert_videos kid (video # vs) video_ids w =
     (case parse_duration (yv_duration video) of
        Inl e \<Rightarrow> (Inl e, w)
      | Inr duration \<Rightarrow>
          (case insert_video kid ''education'' (yv_thumbnail_url video) (yv_url video)
                  (yv_video_id video) (yv_title video) duration (yv_view_count video)
                  (yv_like_count video) ''en'' (yv_comment_count video) w of
             (Inl e, w1) \<Rightarrow> (Inl e, w1)
           | (Inr video_id, w1) \<Rightarrow> insert_videos kid vs (video_ids @ [video_id]) w1))"

text \<open>Seven days in the clock's unit.\<close>

definition seven_days :: int where
  "seven_days = 7 * 24 * 60 * 60 * 1000"

fun search_loop ::
  "collaborators \<Rightarrow> string list \<Rightarrow> string list \<Rightarrow> world \<Rightarrow> (exn + string list) \<times> world" where
  "search_loop cfg [] video_ids w = (Inr video_ids, w)"
| "search_loop cfg (kid # kids) video_ids w =
     (case find_by_id (keywords_db w) kid of
        Inl e \<Rightarrow> (Inl e, w)
      | Inr None \<Rightarrow> search_loop cfg kids video_ids w
      | Inr (Some keyword_data) \<Rightarrow>
          (case utcnow w of (now, w1) \<Rightarrow>
             (case yt_search cfg (kw_keyword keyword_data) 3 (now - seven_days)
                     (kw_region keyword_data) of
                Inl e \<Rightarrow> (Inl e, w1)
              | Inr found \<Rightarrow>
                  (case insert_videos kid found video_ids w1 of
                     (Inl e, w2) \<Rightarrow> (Inl e, w2)
                   | (Inr video_ids1, w2) \<Rightarrow> search_loop cfg kids video_ids1 w2))))"

definition search_videos ::
  "collaborators \<Rightarrow> string list \<Rightarrow> world \<Rightarrow> (exn + string list) \<times> world" where
  "search_videos cfg keyword_ids w = search_loop cfg keyword_ids [] w"

text \<open>
  \<open>download_videos\<close>: \<open>path_map\<close> is a dict from video id to path. Nothing is caught
  here either.
\<close>

fun download_loop ::
  "collaborators \<Rightarrow> video_doc coll \<Rightarrow> string list \<Rightarrow> (string \<times> string) list
     \<Rightarrow> exn + (string \<times> string) list" where
  "download_loop cfg c [] path_map = Inr path_map"
| "download_loop cfg c (vid # vids) path_map =
     (case find_by_id c vid of
        Inl e \<Rightarrow> Inl e
      | Inr None \<Rightarrow> download_loop cfg c vids path_map
      | Inr (Some video_data) \<Rightarrow>
          (case download_video cfg (video_url video_data) of
             Inl e \<Rightarrow> Inl e
           | Inr path \<Rightarrow> download_loop cfg c vids (AList.update vid path path_map)))"

definition download_videos ::
  "collaborators \<Rightarrow> string list \<Rightarrow> world \<Rightarrow> exn + (string \<times> string) list" where
  "download_videos cfg video_ids w = download_loop cfg (videos_db w) video_ids []"

text \<open>
  \<open>transcribe_videos\<close>: a video without a path (or with an empty one) is skipped, and
  \<open>except Exception\<close> turns a failure of the transcriber or of the insert into the next
  iteration.
\<close>

fun transcribe_videos ::
  "collaborators \<Rightarrow> string list \<Rightarrow> (string \<times> string) list \<Rightarrow> world \<Rightarrow> world" where
  "transcribe_videos cfg [] video_paths w = w"
| "transcribe_videos cfg (vid # vids) video_paths w =
     (case map_of video_paths vid of
        None \<Rightarrow> transcribe_videos cfg vids video_paths w
      | Some video_path \<Rightarrow>
          if video_path = [] then transcribe_videos cfg vids video_paths w
          else
            (case transcribe cfg video_path of
               Inl e \<Rightarrow> transcribe_videos cfg vids video_paths w
             | Inr (text, language) \<Rightarrow>
                 (case insert_transcript vid text language w of
                    (_, w1) \<Rightarrow> transcribe_videos cfg vids video_paths w1)))"

definition log_info :: "log_event \<Rightarrow> world \<Rightarrow> world" where
  "log_info ev w = w\<lparr>logs := logs w @ [ev]\<rparr>"

text \<open>
  \<open>run\<close>: the four stages in order; \<open>except Exception\<close> logs the error and raises it
  again. The method returns nothing: \<open>Inr ()\<close> is its normal return.
\<close>

definition run :: "collaborators \<Rightarrow> world \<Rightarrow> (exn + unit) \<times> world" where
  "run cfg w =
     (case fetch_trending_keywords cfg w of (keyword_ids, w1) \<Rightarrow>
        (let w1' = log_info (Fetched (length keyword_ids)) w1 in
         case search_videos cfg keyword_ids w1' of
           (Inl e, w2) \<Rightarrow> (Inl e, log_info (WorkflowError e) w2)
         | (Inr video_ids, w2) \<Rightarrow>
             (let w2' = log_info (Found (length video_ids)) w2 in
              case download_videos cfg video_ids w2' of
                Inl e \<Rightarrow> (Inl e, log_info (WorkflowError e) w2')
              | Inr video_paths \<Rightarrow>
                  (let w3 = log_info (Downloaded (length video_paths)) w2';
                       w4 = transcribe_videos cfg video_ids video_paths w3
                   in (Inr (), log_info Completed w4)))))"

section \<open>lib/keywords/google_trends.py\<close>



section \<open>Predicates used in the statements\<close>



text \<open>Video documents that carry the two constants of \<open>search_videos\<close>.\<close>

definition constant_fields :: "video_doc coll \<Rightarrow> bool" where
  "constant_fields c = list_all (\<lambda>(i, d). video_language d = ''en'' \<and> video_category d = ''education'') c"




section \<open>Concrete inputs\<close>

text \<open>A world whose clock advances by one unit at every reading.\<close>

definition ticking_world :: world where
  "ticking_world = \<lparr>clock = (\<lambda>n. int n), reads = 0, next_oid = 0, keywords_db = [],
     videos_db = [], transcripts_db = [], articles_db = [], logs = []\<rparr>"

definition draft_article :: article_doc where
  "draft_article = \<lparr>created_at = 0, updated_at = 0,
     art_keyword_id = oid_str 1, art_transcript_id = oid_str 3, art_video_id = oid_str 2,
     article_language = ''en'', art_title = ''t'', art_content = ''c'', art_tags = ''x'',
     seo_metadata = [], published = False\<rparr>"

text \<open>The same world later, holding one unpublished article.\<close>

definition article_world :: world where
  "article_world =
     ticking_world\<lparr>reads := 1, next_oid := 5, articles_db := [(oid_str 4, draft_article)]\<rparr>"

text \<open>
  Fetcher records: a well-formed one, one with a non-numeric rank, one whose keyword is a
  number, one whose keyword is blank, one whose metadata is \<open>None\<close>.
\<close>

definition record_python :: raw_keyword where
  "record_python = \<lparr>rk_keyword = Some (PStr ''python''), rk_rank = Some (PInt 1),
     rk_score = Some PNone, rk_metadata = Some (MetaDict [(''region'', PRegion USA)])\<rparr>"




definition record_none_metadata :: raw_keyword where
  "record_none_metadata = \<lparr>rk_keyword = Some (PStr ''go''), rk_rank = Some (PInt 1),
     rk_score = None, rk_metadata = Some MetaNone\<rparr>"

text \<open>Two search results.\<close>

definition video_a :: yt_video where
  "video_a = \<lparr>yv_video_id = ''A'', yv_title = ''a'', yv_url = ''https://www.youtube.com/watch?v=A'',
     yv_thumbnail_url = Some ''thumb-a'', yv_duration = ''PT7M32S'', yv_view_count = 10,
     yv_like_count = 2, yv_comment_count = 1\<rparr>"

definition video_b :: yt_video where
  "video_b = \<lparr>yv_video_id = ''B'', yv_title = ''b'', yv_url = ''https://www.youtube.com/watch?v=B'',
     yv_thumbnail_url = Some ''thumb-b'', yv_duration = ''PT45S'', yv_view_count = 20,
     yv_like_count = 3, yv_comment_count = 0\<rparr>"

text \<open>
  Collaborators: one keyword and two videos, with the download failing for the first
  video only; the same with a failing search; the same with a second record whose
  keyword is a number; and one where a record is malformed, a fetcher fails and every
  transcription fails, while search and download succeed.
\<close>

definition cfg_download_fails :: collaborators where
  "cfg_download_fails = \<lparr>
     keyword_fetchers = [(RegionName ''US'', [(''google_trends'', Inr [record_python])])],
     yt_search = (\<lambda>query max_results published_after region_code. Inr [video_a, video_b]),
     download_video = (\<lambda>url. if url = yv_url video_a
        then Inl (CollaboratorError ''Failed to download video'')
        else Inr ''downloads/B.mp4''),
     transcribe = (\<lambda>path. Inr (''hello'', ''en''))\<rparr>"




text \<open>The ticking world after the keyword was fetched, and after the two videos were found.\<close>

definition keyword_world :: world where
  "keyword_world = ticking_world\<lparr>reads := 3, next_oid := 1,
     keywords_db := [(oid_str 0,
        \<lparr>created_at = 1, updated_at = 2,
         kw_keyword = ''python'', kw_rank = 1, kw_score = 0, kw_platform = ''google_trends'',
         kw_region = ''US'', kw_metadata = [(''region'', PStr ''US'')]\<rparr>)]\<rparr>"

definition videos_world :: world where
  "videos_world = keyword_world\<lparr>reads := 10, next_oid := 3,
     logs := [Fetched 1],
     videos_db :=
       [(oid_str 1,
         \<lparr>created_at = 5, updated_at = 6, keyword_id = oid_str 0,
          video_category = ''education'', video_thumbnail_url = ''thumb-a'',
          video_url = ''https://www.youtube.com/watch?v=A'', video_youtube_id = ''A'',
          video_title = ''a'', video_duration = 452, video_views = 10, video_likes = 2,
          video_language = ''en'', video_comments = 1\<rparr>),
        (oid_str 2,
         \<lparr>created_at = 8, updated_at = 9, keyword_id = oid_str 0,
          video_category = ''education'', video_thumbnail_url = ''thumb-b'',
          video_url = ''https://www.youtube.com/watch?v=B'', video_youtube_id = ''B'',
          video_title = ''b'', video_duration = 45, video_views = 20, video_likes = 3,
          video_language = ''en'', video_comments = 0\<rparr>)]\<rparr>"

section \<open>Properties of the duration parser\<close>


lemma digit_chars_nth: "n < 10 \<Longrightarrow> is_digit (digit_chars ! n) \<and> digit_val (digit_chars ! n) = n"
proof -
  assume "n < 10"
  then have "n \<in> {0,1,2,3,4,5,6,7,8,9}" by auto
  then show ?thesis
    by (auto simp: digit_chars_def is_digit_def digit_val_def)
qed

lemma dec_digits: "list_all is_digit (dec n)"
proof (induction n rule: dec.induct)
  case (1 n)
  show ?case
  proof (cases "n < 10")
    case True
    then show ?thesis by (simp add: dec.simps [of n] digit_chars_nth)
  next
    case False
    then show ?thesis using 1 by (simp add: dec.simps [of n] digit_chars_nth)
  qed
qed

lemma dec_nonempty: "dec n \<noteq> []"
  by (subst dec.simps) simp

lemma digits_acc_all: "list_all is_digit s \<Longrightarrow> digits_acc a s = Some (digits_value a s)"
  by (induction s arbitrary: a) (simp_all add: digits_value_def)

lemma parse_nat_all: "list_all is_digit s \<Longrightarrow> s \<noteq> [] \<Longrightarrow> parse_nat s = Some (digits_value 0 s)"
  by (cases s) (simp_all add: parse_nat_def digits_acc_all, simp add: digits_value_def)

lemma digits_value_dec: "digits_value 0 (dec n) = n"
proof (induction n rule: dec.induct)
  case (1 n)
  show ?case
  proof (cases "n < 10")
    case True
    then show ?thesis by (simp add: dec.simps [of n] digits_value_def digit_chars_nth)
  next
    case False
    then have "digits_value 0 (dec (n div 10)) = n div 10" using 1 by simp
    with False show ?thesis
      by (simp add: dec.simps [of n] digits_value_def digit_chars_nth)
  qed
qed

lemma parse_nat_dec: "parse_nat (dec n) = Some n"
  by (simp add: parse_nat_all dec_digits dec_nonempty digits_value_dec)

lemma digit_not_space: "is_digit c \<Longrightarrow> \<not> is_space c"
  by (auto simp: is_digit_def is_space_def Let_def)

lemma strip_digits: "list_all is_digit s \<Longrightarrow> strip s = s"
proof (cases s rule: rev_cases)
  case Nil
  then show ?thesis by (simp add: strip_def)
next
  case (snoc ys y)
  assume a: "list_all is_digit s"
  have 1: "dropWhile is_space s = s"
    using a by (cases s) (auto simp: digit_not_space)
  have 2: "dropWhile is_space (rev s) = rev s"
    using a snoc by (auto simp: digit_not_space)
  show ?thesis by (simp add: strip_def 1 2)
qed

lemma int_of_str_dec:
  assumes "length (dec n) \<le> max_str_digits"
  shows "int_of_str (dec n) = Inr (int n)"
proof -
  obtain c cs where d: "dec n = c # cs" using dec_nonempty [of n] by (cases "dec n") auto
  have "is_digit c" using dec_digits [of n] d by simp
  then have "c \<noteq> CHR ''-''" "c \<noteq> CHR ''+''" by (auto simp: is_digit_def)
  moreover have "strip (c # cs) = c # cs"
    using strip_digits [OF dec_digits, of n] d by simp
  moreover have "parse_nat (c # cs) = Some n"
    using parse_nat_dec [of n] d by simp
  moreover have "filter is_digit (c # cs) = c # cs"
    using dec_digits [of n] d by (simp add: list_all_iff)
  moreover have "\<not> max_str_digits < length (c # cs)"
    using assms d by simp
  ultimately show ?thesis
    by (simp add: int_of_str_def d del: filter.simps)
qed

lemma remove_PT_id: "CHR ''P'' \<notin> set s \<Longrightarrow> remove_PT s = s"
  by (induction s rule: remove_PT.induct) auto

lemma split_on_absent: "u \<notin> set s \<Longrightarrow> split_on u s = [s]"
  by (induction s) auto

lemma split_on_first: "u \<notin> set ds \<Longrightarrow> u \<notin> set rest \<Longrightarrow> split_on u (ds @ u # rest) = [ds, rest]"
  by (induction ds) (auto simp: split_on_absent)

lemma dec_no_letter: "\<not> is_digit u \<Longrightarrow> u \<notin> set (dec n)"
  using dec_digits [of n] by (auto simp: list_all_iff)

lemma take_unit_token:
  assumes "\<not> is_digit u" "u \<notin> set rest" "within_limit v"
  shows "take_unit u mult (seconds, token v u @ rest) = Inr (seconds + contribution v * mult, rest)"
proof (cases v)
  case None
  then show ?thesis using assms by (simp add: take_unit_def token_def contribution_def)
next
  case (Some n)
  have "split_on u (dec n @ u # rest) = [dec n, rest]"
    using assms by (simp add: split_on_first dec_no_letter)
  moreover have "int_of_str (dec n) = Inr (int n)"
    using assms(3) Some by (simp add: within_limit_def int_of_str_dec)
  ultimately show ?thesis
    using Some by (simp add: take_unit_def token_def contribution_def)
qed

lemma token_set: "c \<in> set (token v u) \<Longrightarrow> is_digit c \<or> c = u"
  using dec_digits by (auto simp: token_def list_all_iff split: option.splits)

lemma letters: "\<not> is_digit (CHR ''H'')" "\<not> is_digit (CHR ''M'')" "\<not> is_digit (CHR ''S'')" "\<not> is_digit (CHR ''P'')"
  by (simp_all add: is_digit_def)

lemma parse_duration_tokens:
  assumes lh: "within_limit h" and lm: "within_limit m" and ls: "within_limit s"
  shows "parse_duration (''PT'' @ token h (CHR ''H'') @ token m (CHR ''M'') @ token s (CHR ''S''))
     = Inr (contribution h * 3600 + contribution m * 60 + contribution s)"
proof -
  let ?H = "token h (CHR ''H'')" and ?M = "token m (CHR ''M'')" and ?S = "token s (CHR ''S'')"
  have P: "CHR ''P'' \<notin> set (?H @ ?M @ ?S)"
    using letters by (auto dest!: token_set)
  have r: "remove_PT (?H @ ?M @ ?S) = ?H @ ?M @ ?S"
    using P by (rule remove_PT_id)
  have h: "CHR ''H'' \<notin> set (?M @ ?S)" using letters by (auto dest!: token_set)
  have m: "CHR ''M'' \<notin> set ?S" using letters by (auto dest!: token_set)
  have 1: "take_unit (CHR ''H'') 3600 (0, ?H @ ?M @ ?S) = Inr (contribution h * 3600, ?M @ ?S)"
    using take_unit_token [OF letters(1) h lh, of 3600 0] by simp
  have 2: "take_unit (CHR ''M'') 60 (contribution h * 3600, ?M @ ?S)
      = Inr (contribution h * 3600 + contribution m * 60, ?S)"
    using take_unit_token [OF letters(2) m lm] by simp
  have 3: "take_unit (CHR ''S'') 1 (contribution h * 3600 + contribution m * 60, ?S)
      = Inr (contribution h * 3600 + contribution m * 60 + contribution s, [])"
    using take_unit_token [OF letters(3) _ ls, of "[]" 1] by simp
  show ?thesis
    by (simp add: parse_duration_def r 1 2 3)
qed

lemma parse_duration_7m32s: "parse_duration ''PT7M32S'' = Inr 452"
  by code_simp

lemma parse_duration_1h2m10s: "parse_duration ''PT1H2M10S'' = Inr 3730"
  by code_simp

lemma parse_duration_45s: "parse_duration ''PT45S'' = Inr 45"
  by code_simp

lemma parse_duration_2h: "parse_duration ''PT2H'' = Inr 7200"
  by code_simp

lemma parse_duration_empty: "parse_duration ''PT'' = Inr 0"
  by code_simp

text \<open>
  Claim C4. \<open>parse_duration\<close> maps a duration \<open>PT#H#M#S\<close> to its seconds: the four examples
  of the specification, 0 for \<open>PT\<close> alone, and for any subset of the three tokens (each
  an unsigned decimal number, within the interpreter's digit limit, followed by its
  letter) the sum of what the tokens present contribute, a missing token contributing
  zero.
\<close>

theorem parse_duration_spec:
  "parse_duration ''PT7M32S'' = Inr 452
   \<and> parse_duration ''PT1H2M10S'' = Inr 3730
   \<and> parse_duration ''PT45S'' = Inr 45
   \<and> parse_duration ''PT2H'' = Inr 7200
   \<and> parse_duration ''PT'' = Inr 0
   \<and> (\<forall>h m s. within_limit h \<and> within_limit m \<and> within_limit s \<longrightarrow>
        parse_duration
          (''PT'' @ token h (CHR ''H'') @ token m (CHR ''M'') @ token s (CHR ''S''))
        = Inr (contribution h * 3600 + contribution m * 60 + contribution s))"
  using parse_duration_7m32s parse_duration_1h2m10s parse_duration_45s parse_duration_2h
    parse_duration_empty parse_duration_tokens
  by blast

lemma dec_small: "dec (Suc 0) = ''1''" "dec 2 = ''2''" "dec 10 = ''10''"
  by code_simp+

theorem parse_duration_spec_witness:
  "within_limit (Some 1) \<and> within_limit (Some 2) \<and> within_limit (Some 10)
   \<and> ''PT'' @ token (Some 1) (CHR ''H'') @ token (Some 2) (CHR ''M'') @ token (Some 10) (CHR ''S'')
       = ''PT1H2M10S''
   \<and> parse_duration
        (''PT'' @ token (Some 1) (CHR ''H'') @ token (Some 2) (CHR ''M'')
           @ token (Some 10) (CHR ''S''))
       = Inr (contribution (Some 1) * 3600 + contribution (Some 2) * 60 + contribution (Some 10))
   \<and> contribution (Some 1) * 3600 + contribution (Some 2) * 60 + contribution (Some 10) = 3730"
proof -
  have l: "within_limit (Some 1) \<and> within_limit (Some 2) \<and> within_limit (Some 10)"
    by (simp add: within_limit_def dec_small max_str_digits_def)
  have t: "''PT'' @ token (Some 1) (CHR ''H'') @ token (Some 2) (CHR ''M'')
      @ token (Some 10) (CHR ''S'') = ''PT1H2M10S''"
    by (simp add: token_def dec_small)
  have c: "contribution (Some 1) * 3600 + contribution (Some 2) * 60 + contribution (Some 10) = 3730"
    by (simp add: contribution_def)
  have "parse_duration
        (''PT'' @ token (Some 1) (CHR ''H'') @ token (Some 2) (CHR ''M'')
           @ token (Some 10) (CHR ''S''))
       = Inr (contribution (Some 1) * 3600 + contribution (Some 2) * 60 + contribution (Some 10))"
    using parse_duration_spec l by blast
  then show ?thesis using l t c by blast
qed

section \<open>Properties of the region catalog\<close>


lemma from_code_value: "from_code code = Some r \<Longrightarrow> region_value r = upper code"
  by (auto simp: from_code_def find_Some_iff)

lemma from_code_None_iff: "from_code code = None \<longleftrightarrow> upper code \<notin> set (map region_value all_regions)"
  by (force simp: from_code_def find_None_iff)

lemma region_values: "map region_value all_regions = [''TW'', ''HK'', ''JP'', ''KR'', ''US'', ''SG'', ''GLOBAL'']"
  by (simp add: all_regions_def)

text \<open>
  Claim C5. Region resolution goes through \<open>code.upper()\<close>: two codes with the same
  upper-case form resolve alike, a resolved member's stored value is that upper-case
  form, and a code whose upper-case form is not one of the seven values resolves to
  nothing (\<open>from_code\<close> gives \<open>None\<close>, \<open>is_valid_code\<close> gives \<open>False\<close>): no default is
  substituted.
\<close>

theorem region_resolution:
  "(upper code = upper code' \<longrightarrow> from_code code = from_code code')
   \<and> (\<forall>r. from_code code = Some r \<longrightarrow> region_value r = upper code)
   \<and> (upper code \<notin> set [''TW'', ''HK'', ''JP'', ''KR'', ''US'', ''SG'', ''GLOBAL'']
        \<longrightarrow> from_code code = None \<and> \<not> is_valid_code code)
   \<and> (upper code \<in> set [''TW'', ''HK'', ''JP'', ''KR'', ''US'', ''SG'', ''GLOBAL'']
        \<longrightarrow> from_code code \<noteq> None \<and> is_valid_code code)"
proof -
  have 1: "upper code = upper code' \<longrightarrow> from_code code = from_code code'"
    by (simp add: from_code_def)
  have 2: "\<forall>r. from_code code = Some r \<longrightarrow> region_value r = upper code"
    using from_code_value by blast
  have 3: "from_code code = None \<longleftrightarrow> upper code \<notin> set [''TW'', ''HK'', ''JP'', ''KR'', ''US'', ''SG'', ''GLOBAL'']"
    unfolding from_code_None_iff region_values ..
  have 4: "is_valid_code code \<longleftrightarrow> upper code \<in> set [''TW'', ''HK'', ''JP'', ''KR'', ''US'', ''SG'', ''GLOBAL'']"
    unfolding is_valid_code_def region_values ..
  show ?thesis using 1 2 3 4 by blast
qed

lemma upper_tw: "upper ''tw'' = ''TW''" by code_simp
lemma upper_TW: "upper ''TW'' = ''TW''" by code_simp
lemma upper_ZZ: "upper ''ZZ'' = ''ZZ''" by code_simp

theorem region_resolution_witness:
  "upper ''tw'' = upper ''TW'' \<and> from_code ''tw'' = from_code ''TW''
   \<and> from_code ''tw'' = Some TAIWAN \<and> region_value TAIWAN = upper ''tw''
   \<and> upper ''TW'' \<in> set [''TW'', ''HK'', ''JP'', ''KR'', ''US'', ''SG'', ''GLOBAL'']
   \<and> is_valid_code ''tw''
   \<and> upper ''ZZ'' \<notin> set [''TW'', ''HK'', ''JP'', ''KR'', ''US'', ''SG'', ''GLOBAL'']
   \<and> from_code ''ZZ'' = None \<and> \<not> is_valid_code ''ZZ''"
proof -
  have tw: "from_code ''tw'' = Some TAIWAN"
    by (simp add: from_code_def upper_tw all_regions_def)
  show ?thesis
    using region_resolution [of "''tw''" "''TW''"] region_resolution [of "''ZZ''" "''ZZ''"] tw
    by (simp add: upper_tw upper_TW upper_ZZ)
qed

section \<open>Properties of the repository layer\<close>


lemma hex_chars_all: "list_all (\<lambda>c. is_hex c \<and> lower_char c = c) hex_chars"
  by (simp add: hex_chars_def is_hex_def lower_char_def)

lemma hex_chars_nth: "n < 16 \<Longrightarrow> is_hex (hex_chars ! n) \<and> lower_char (hex_chars ! n) = hex_chars ! n"
proof -
  assume "n < 16"
  moreover have "length hex_chars = 16" by (simp add: hex_chars_def)
  ultimately show ?thesis
    using hex_chars_all by (simp add: list_all_length)
qed

lemma to_hex_length: "length (to_hex k n) = k"
  by (induction k arbitrary: n) simp_all

lemma to_hex_is_hex: "list_all is_hex (to_hex k n)"
  by (induction k arbitrary: n) (simp_all add: hex_chars_nth)

lemma to_hex_lower: "map lower_char (to_hex k n) = to_hex k n"
  by (induction k arbitrary: n) (simp_all add: hex_chars_nth)

lemma ObjectId_oid_str: "ObjectId (oid_str n) = Inr (oid_str n)"
  by (simp add: ObjectId_def oid_str_def to_hex_length to_hex_is_hex to_hex_lower)

lemma insert_one_eq:
  "insert_one data c w =
     ((oid_str (next_oid w),
       c @ [(oid_str (next_oid w),
             data\<lparr>created_at := clock w (reads w), updated_at := clock w (Suc (reads w))\<rparr>)]),
      w\<lparr>reads := Suc (Suc (reads w)), next_oid := Suc (next_oid w)\<rparr>)"
  by (simp add: insert_one_def utcnow_def Let_def)

lemma insert_keyword_eq:
  "insert_keyword (PStr k) (PInt r) (PInt s) (PStr p) (PStr g) m w =
     (Inr (oid_str (next_oid w)),
      w\<lparr>reads := Suc (Suc (Suc (reads w))), next_oid := Suc (next_oid w),
        keywords_db := keywords_db w @
          [(oid_str (next_oid w),
            \<lparr>created_at = clock w (Suc (reads w)), updated_at = clock w (Suc (Suc (reads w))),
             kw_keyword = k, kw_rank = r, kw_score = s, kw_platform = p, kw_region = g,
             kw_metadata = (case m of MetaNone \<Rightarrow> [] | MetaDict d \<Rightarrow> d)\<rparr>)]\<rparr>)"
  by (simp add: insert_keyword_def insert_one_eq utcnow_def Let_def)

text \<open>
  What an insert into a store that does not hold the fresh id yet gives: the id resolves,
  and the record's stamps are the second and the third reading of the clock since the
  call began.
\<close>

lemma insert_keyword_resolves:
  assumes "oid_str (next_oid w) \<notin> fst ` set (keywords_db w)"
  shows "\<exists>d. find_by_id
             (keywords_db (snd (insert_keyword (PStr k) (PInt r) (PInt s) (PStr p) (PStr g) m w)))
             (oid_str (next_oid w)) = Inr (Some d)
           \<and> created_at d = clock w (Suc (reads w))
           \<and> updated_at d = clock w (Suc (Suc (reads w)))"
proof -
  have "map_of (keywords_db w) (oid_str (next_oid w)) = None"
    using assms by (simp add: map_of_eq_None_iff)
  then show ?thesis
    by (simp add: insert_keyword_eq find_by_id_def find_one_def ObjectId_oid_str map_add_def)
qed

text \<open>
  Claim C6. A keyword insert returns an id that \<open>find_by_id\<close> resolves, but the stamps of
  the record need not be equal: \<open>insert_keyword\<close> sets both to one reading, and
  \<open>insert_one\<close> then overwrites each with a reading of its own. With a clock that advances
  between the two readings the stored record has \<open>created_at = 1\<close> and \<open>updated_at = 2\<close>.
\<close>

theorem insert_keyword_stamps_differ:
  "fst (insert_keyword (PStr ''python'') (PInt 1) (PInt 0) (PStr ''google_trends'')
          (PStr ''US'') MetaNone ticking_world) = Inr (oid_str 0)
   \<and> find_by_id
        (keywords_db (snd (insert_keyword (PStr ''python'') (PInt 1) (PInt 0)
           (PStr ''google_trends'') (PStr ''US'') MetaNone ticking_world)))
        (oid_str 0)
       = Inr (Some \<lparr>created_at = 1, updated_at = 2, kw_keyword = ''python'', kw_rank = 1,
                    kw_score = 0, kw_platform = ''google_trends'', kw_region = ''US'',
                    kw_metadata = []\<rparr>)"
  by (simp add: insert_keyword_eq ticking_world_def find_by_id_def find_one_def ObjectId_oid_str)

lemma find_by_id_valid:
  "length s = 24 \<Longrightarrow> list_all is_hex s \<Longrightarrow> find_by_id c s = Inr (map_of c (map lower_char s))"
  by (simp add: find_by_id_def find_one_def ObjectId_def)

text \<open>
  Claim C8, amended. For an identifier string in the store's native form (24 hexadecimal
  digits) that matches no stored record, \<open>find_by_id\<close> returns an absent result and raises
  nothing.
\<close>

theorem find_by_id_absent:
  assumes "length s = 24" and "list_all is_hex s"
    and "map lower_char s \<notin> fst ` set c"
  shows "find_by_id c s = Inr None"
  using assms by (simp add: find_by_id_valid map_of_eq_None_iff)

theorem find_by_id_absent_witness:
  "length (oid_str 7) = 24 \<and> list_all is_hex (oid_str 7)
   \<and> map lower_char (oid_str 7) \<notin> fst ` set [(oid_str 4, draft_article)]
   \<and> find_by_id [(oid_str 4, draft_article)] (oid_str 7) = Inr None"
proof -
  have 1: "length (oid_str 7) = 24" by (simp add: oid_str_def to_hex_length)
  have 2: "list_all is_hex (oid_str 7)" by (simp add: oid_str_def to_hex_is_hex)
  have "oid_str 7 \<noteq> oid_str 4" by code_simp
  then have 3: "map lower_char (oid_str 7) \<notin> fst ` set [(oid_str 4, draft_article)]"
    by (simp add: oid_str_def to_hex_lower)
  show ?thesis using 1 2 3 find_by_id_absent [OF 1 2 3] by simp
qed

text \<open>
  Claim C8 as stated fails: for a string that is not in the native form the conversion
  raises \<open>InvalidId\<close> out of \<open>find_by_id\<close>.
\<close>

theorem find_by_id_raises_counterexample:
  "find_by_id [(oid_str 4, draft_article)] ''not-an-id'' = Inl InvalidId"
  by (simp add: find_by_id_def ObjectId_def)


lemma update_one_eq:
  "update_one oid f c w =
     (case map_of c oid of
        None \<Rightarrow> ((False, c), w\<lparr>reads := Suc (reads w)\<rparr>)
      | Some d \<Rightarrow>
          (((f d)\<lparr>updated_at := clock w (reads w)\<rparr> \<noteq> d,
            AList.update oid ((f d)\<lparr>updated_at := clock w (reads w)\<rparr>) c),
           w\<lparr>reads := Suc (reads w)\<rparr>))"
  by (simp add: update_one_def utcnow_def Let_def split: option.splits)

lemma update_publish_status_invalid:
  "ObjectId aid = Inl e \<Longrightarrow> update_publish_status aid v w = (False, w)"
  by (simp add: update_publish_status_def)

lemma update_publish_status_absent:
  "ObjectId aid = Inr oid \<Longrightarrow> map_of (articles_db w) oid = None \<Longrightarrow>
   update_publish_status aid v w = (False, w\<lparr>reads := Suc (reads w)\<rparr>)"
  by (simp add: update_publish_status_def update_one_eq)

lemma update_publish_status_present:
  "ObjectId aid = Inr oid \<Longrightarrow> map_of (articles_db w) oid = Some d \<Longrightarrow>
   update_publish_status aid v w =
     (d\<lparr>published := v, updated_at := clock w (reads w)\<rparr> \<noteq> d,
      w\<lparr>reads := Suc (reads w),
        articles_db := AList.update oid (d\<lparr>published := v, updated_at := clock w (reads w)\<rparr>)
                         (articles_db w)\<rparr>)"
  by (simp add: update_publish_status_def update_one_eq)

text \<open>
  Claim C7, amended. Two publish-status updates in a row with the same value never raise,
  and the second leaves every article's \<open>published\<close> value as the first left it. Since
  each call stamps \<open>updated_at\<close> anew, the second call reports a modification exactly when
  the article exists and the two clock readings differ; it reports no change when the id
  is malformed, the article is absent, or both calls read the same time.
\<close>

theorem publish_twice:
  "(case update_publish_status aid v w of (r1, w1) \<Rightarrow>
      case update_publish_status aid v w1 of (r2, w2) \<Rightarrow>
        r2 = (case ObjectId aid of
                Inl e \<Rightarrow> False
              | Inr oid \<Rightarrow>
                  (case map_of (articles_db w) oid of
                     None \<Rightarrow> False
                   | Some d \<Rightarrow> clock w (Suc (reads w)) \<noteq> clock w (reads w)))
        \<and> (\<forall>oid. map_option published (map_of (articles_db w2) oid)
                  = map_option published (map_of (articles_db w1) oid)))"
proof (cases "ObjectId aid")
  case (Inl e)
  then show ?thesis by (simp add: update_publish_status_invalid)
next
  case (Inr oid)
  show ?thesis
  proof (cases "map_of (articles_db w) oid")
    case None
    then show ?thesis using Inr by (simp add: update_publish_status_absent)
  next
    case (Some d)
    define d1 where "d1 = d\<lparr>published := v, updated_at := clock w (reads w)\<rparr>"
    define w1 where "w1 = w\<lparr>reads := Suc (reads w), articles_db := AList.update oid d1 (articles_db w)\<rparr>"
    define d2 where "d2 = d1\<lparr>published := v, updated_at := clock w1 (reads w1)\<rparr>"
    define w2 where "w2 = w1\<lparr>reads := Suc (reads w1), articles_db := AList.update oid d2 (articles_db w1)\<rparr>"
    have 1: "update_publish_status aid v w = (d1 \<noteq> d, w1)"
      unfolding d1_def w1_def using Inr Some by (rule update_publish_status_present)
    have m: "map_of (articles_db w1) oid = Some d1"
      by (simp add: w1_def update_conv')
    have 2: "update_publish_status aid v w1 = (d2 \<noteq> d1, w2)"
      unfolding d2_def w2_def using Inr m by (rule update_publish_status_present)
    have 3: "(d2 \<noteq> d1) = (clock w (Suc (reads w)) \<noteq> clock w (reads w))"
      by (cases d) (auto simp: d2_def d1_def w1_def)
    have 4: "map_option published (map_of (articles_db w2) x)
        = map_option published (map_of (articles_db w1) x)" for x
      using m by (simp add: w2_def update_conv' d2_def d1_def)
    show ?thesis
      using Inr Some 3 4 by (simp add: 1 2)
  qed
qed

text \<open>
  Claim C7 as stated fails: with a clock that advances between the calls, the second
  update of an existing article with the same value reports a modification.
\<close>

theorem publish_twice_counterexample:
  "fst (update_publish_status (oid_str 4) True article_world) = True
   \<and> fst (update_publish_status (oid_str 4) True
            (snd (update_publish_status (oid_str 4) True article_world))) = True"
proof -
  define d1 where "d1 = draft_article\<lparr>published := True, updated_at := 1\<rparr>"
  define w1 where "w1 = article_world\<lparr>reads := 2, articles_db := [(oid_str 4, d1)]\<rparr>"
  have m: "map_of (articles_db article_world) (oid_str 4) = Some draft_article"
    by (simp add: article_world_def)
  have 1: "update_publish_status (oid_str 4) True article_world = (True, w1)"
    unfolding update_publish_status_present [OF ObjectId_oid_str m]
    by (simp add: w1_def d1_def article_world_def ticking_world_def draft_article_def)
  have m1: "map_of (articles_db w1) (oid_str 4) = Some d1"
    by (simp add: w1_def)
  have 2: "fst (update_publish_status (oid_str 4) True w1) = True"
    unfolding update_publish_status_present [OF ObjectId_oid_str m1]
    by (simp add: w1_def d1_def article_world_def ticking_world_def draft_article_def)
  show ?thesis by (simp add: 1 2)
qed

section \<open>Properties of the workflow\<close>

lemma insert_video_eq:
  "ObjectId kid = Inr koid \<Longrightarrow>
   insert_video kid cat (Some thumb) url yid title dur v l lang c w =
     (Inr (oid_str (next_oid w)),
      w\<lparr>reads := Suc (Suc (Suc (reads w))), next_oid := Suc (next_oid w),
        videos_db := videos_db w @
          [(oid_str (next_oid w),
            \<lparr>created_at = clock w (Suc (reads w)), updated_at = clock w (Suc (Suc (reads w))),
             keyword_id = koid, video_category = cat, video_thumbnail_url = thumb,
             video_url = url, video_youtube_id = yid, video_title = title,
             video_duration = dur, video_views = v, video_likes = l,
             video_language = lang, video_comments = c\<rparr>)]\<rparr>)"
  by (simp add: insert_video_def insert_one_eq utcnow_def Let_def)

lemma insert_video_videos:
  "\<exists>new. videos_db (snd (insert_video kid ''education'' th url yid title dur v l ''en'' c w))
           = videos_db w @ new \<and> constant_fields new"
proof (cases th)
  case None
  then show ?thesis by (simp add: insert_video_def constant_fields_def)
next
  case (Some thumb)
  show ?thesis
  proof (cases "ObjectId kid")
    case (Inl e)
    then show ?thesis using Some
      by (simp add: insert_video_def utcnow_def constant_fields_def)
  next
    case (Inr koid)
    then show ?thesis using Some
      by (simp add: insert_video_eq constant_fields_def)
  qed
qed

lemma constant_fields_append: "constant_fields (a @ b) = (constant_fields a \<and> constant_fields b)"
  by (simp add: constant_fields_def)

lemma insert_videos_videos:
  "\<exists>new. videos_db (snd (insert_videos kid vs ids w)) = videos_db w @ new \<and> constant_fields new"
proof (induction vs arbitrary: ids w)
  case Nil
  show ?case by (simp add: constant_fields_def)
next
  case (Cons video vs)
  show ?case
  proof (cases "parse_duration (yv_duration video)")
    case (Inl e)
    then show ?thesis by (simp add: constant_fields_def)
  next
    case (Inr dur)
    let ?step = "insert_video kid ''education'' (yv_thumbnail_url video) (yv_url video)
                  (yv_video_id video) (yv_title video) dur (yv_view_count video)
                  (yv_like_count video) ''en'' (yv_comment_count video) w"
    obtain r w1 where step: "?step = (r, w1)" by (cases ?step)
    obtain n1 where n1: "videos_db w1 = videos_db w @ n1" "constant_fields n1"
      using insert_video_videos [of kid "yv_thumbnail_url video" "yv_url video"
          "yv_video_id video" "yv_title video" dur "yv_view_count video"
          "yv_like_count video" "yv_comment_count video" w] step by auto
    show ?thesis
    proof (cases r)
      case (Inl e)
      then show ?thesis using Inr step n1 by simp
    next
      case (Inr vid)
      obtain n2 where n2: "videos_db (snd (insert_videos kid vs (ids @ [vid]) w1)) = videos_db w1 @ n2"
          "constant_fields n2"
        using Cons.IH by blast
      have "videos_db (snd (insert_videos kid (video # vs) ids w)) = videos_db w @ (n1 @ n2)"
        using \<open>parse_duration (yv_duration video) = Inr dur\<close> step Inr n1 n2 by simp
      then show ?thesis using n1 n2 constant_fields_append by blast
    qed
  qed
qed

lemma search_loop_videos:
  "\<exists>new. videos_db (snd (search_loop cfg kids ids w)) = videos_db w @ new \<and> constant_fields new"
proof (induction kids arbitrary: ids w)
  case Nil
  show ?case by (simp add: constant_fields_def)
next
  case (Cons kid kids)
  show ?case
  proof (cases "find_by_id (keywords_db w) kid")
    case (Inl e)
    then show ?thesis by (simp add: constant_fields_def)
  next
    case (Inr found)
    show ?thesis
    proof (cases found)
      case None
      then show ?thesis using Inr Cons.IH by simp
    next
      case (Some kd)
      let ?w1 = "w\<lparr>reads := Suc (reads w)\<rparr>"
      let ?s = "yt_search cfg (kw_keyword kd) 3 (clock w (reads w) - seven_days) (kw_region kd)"
      show ?thesis
      proof (cases ?s)
        case (Inl e)
        then show ?thesis using Inr Some by (simp add: utcnow_def constant_fields_def)
      next
        case sr: (Inr vs)
        obtain r w2 where iv: "insert_videos kid vs ids ?w1 = (r, w2)"
          by (cases "insert_videos kid vs ids ?w1")
        obtain n1 where n1: "videos_db w2 = videos_db w @ n1" "constant_fields n1"
          using insert_videos_videos [of kid vs ids ?w1] iv by auto
        show ?thesis
        proof (cases r)
          case (Inl e)
          then show ?thesis using Inr Some sr iv n1 by (simp add: utcnow_def)
        next
          case rr: (Inr ids1)
          obtain n2 where n2: "videos_db (snd (search_loop cfg kids ids1 w2)) = videos_db w2 @ n2"
              "constant_fields n2"
            using Cons.IH by blast
          have "videos_db (snd (search_loop cfg (kid # kids) ids w)) = videos_db w @ (n1 @ n2)"
            using Inr Some sr iv rr n1 n2 by (simp add: utcnow_def)
          then show ?thesis using n1 n2 constant_fields_append by blast
        qed
      qed
    qed
  qed
qed

text \<open>
  Claim C10. Every video document that \<open>search_videos\<close> adds to the store, whatever the
  keywords, the search results and the point at which the method may stop, has language
  \<open>'en'\<close> and category \<open>'education'\<close>.
\<close>

theorem search_videos_constant_fields:
  "\<exists>new. videos_db (snd (search_videos cfg keyword_ids w)) = videos_db w @ new
         \<and> list_all (\<lambda>(i, d). video_language d = ''en'' \<and> video_category d = ''education'') new"
  using search_loop_videos [of cfg keyword_ids "[]" w]
  by (simp add: search_videos_def constant_fields_def)



lemma process_keyword_inserted:
  assumes "convert_metadata (rk_metadata kd) = Inr md"
    and "rk_keyword kd = Some k" and "py_str k = Inr kt" and "rk_rank kd = Some r"
    and "py_int r = Inr ri" and "py_int (get_score kd) = Inr si"
  shows "process_keyword region platform kd w =
     (Inr (Some (oid_str (next_oid w))),
      w\<lparr>reads := Suc (Suc (Suc (reads w))), next_oid := Suc (next_oid w),
        keywords_db := keywords_db w @
          [(oid_str (next_oid w),
            \<lparr>created_at = clock w (Suc (reads w)), updated_at = clock w (Suc (Suc (reads w))),
             kw_keyword = kt, kw_rank = ri, kw_score = si, kw_platform = platform,
             kw_region = (case region of RegionMember x \<Rightarrow> region_value x | RegionName n \<Rightarrow> n),
             kw_metadata = md\<rparr>)]\<rparr>)"
  using assms by (simp add: process_keyword_def keyword_try_def insert_keyword_eq)


lemma record_python_step:
  "process_keyword (RegionName ''US'') ''google_trends'' record_python w =
     (Inr (Some (oid_str (next_oid w))),
      w\<lparr>reads := Suc (Suc (Suc (reads w))), next_oid := Suc (next_oid w),
        keywords_db := keywords_db w @
          [(oid_str (next_oid w),
            \<lparr>created_at = clock w (Suc (reads w)), updated_at = clock w (Suc (Suc (reads w))),
             kw_keyword = ''python'', kw_rank = 1, kw_score = 0, kw_platform = ''google_trends'',
             kw_region = ''US'', kw_metadata = [(''region'', PStr ''US'')]\<rparr>)]\<rparr>)"
proof -
  have m: "convert_metadata (rk_metadata record_python) = Inr [(''region'', PStr ''US'')]"
    by (simp add: convert_metadata_def record_python_def)
  show ?thesis
    using process_keyword_inserted [OF m, of "PStr ''python''" "''python''" "PInt 1" 1 0
        "RegionName ''US''" "''google_trends''" w]
    by (simp add: record_python_def get_score_def)
qed

lemma fetch_one_keyword:
  "keyword_fetchers cfg = [(RegionName ''US'', [(''google_trends'', Inr [record_python])])] \<Longrightarrow>
   fetch_trending_keywords cfg ticking_world = ([oid_str 0], keyword_world)"
  by (simp add: fetch_trending_keywords_def record_python_step ticking_world_def keyword_world_def)

lemma find_keyword_0:
  "find_by_id (keywords_db (log_info ev keyword_world)) (oid_str 0) =
     Inr (Some \<lparr>created_at = 1, updated_at = 2,
         kw_keyword = ''python'', kw_rank = 1, kw_score = 0, kw_platform = ''google_trends'',
         kw_region = ''US'', kw_metadata = [(''region'', PStr ''US'')]\<rparr>)"
  by (simp add: find_by_id_def find_one_def ObjectId_oid_str keyword_world_def log_info_def)


lemma run_download_error:
  assumes "fetch_trending_keywords cfg w = (kids, w1)"
    and "search_videos cfg kids (log_info (Fetched (length kids)) w1) = (Inr vids, w2)"
    and "download_videos cfg vids (log_info (Found (length vids)) w2) = Inl e"
  shows "run cfg w = (Inl e, log_info (WorkflowError e) (log_info (Found (length vids)) w2))"
  using assms by (simp add: run_def Let_def)


lemma search_two_videos:
  "yt_search cfg = (\<lambda>query max_results published_after region_code. Inr [video_a, video_b]) \<Longrightarrow>
   search_videos cfg [oid_str 0] (log_info (Fetched 1) keyword_world)
     = (Inr [oid_str 1, oid_str 2], videos_world)"
  by (simp add: search_videos_def find_keyword_0 utcnow_def video_a_def video_b_def
      parse_duration_7m32s parse_duration_45s insert_video_eq [OF ObjectId_oid_str])
    (simp add: videos_world_def keyword_world_def ticking_world_def log_info_def numeral_2_eq_2)

text \<open>
  Claim C3. The download collaborator fails for video A and would succeed for video B.
  \<open>download_videos\<close> has no handler: the failure leaves it, \<open>run\<close> raises it again, the
  transcribing stage is never entered and no transcript is stored.
\<close>

theorem download_failure_aborts_run:
  "download_video cfg_download_fails (yv_url video_a)
      = Inl (CollaboratorError ''Failed to download video'')
   \<and> download_video cfg_download_fails (yv_url video_b) = Inr ''downloads/B.mp4''
   \<and> download_videos cfg_download_fails [oid_str 1, oid_str 2] (log_info (Found 2) videos_world)
      = Inl (CollaboratorError ''Failed to download video'')
   \<and> fst (run cfg_download_fails ticking_world)
      = Inl (CollaboratorError ''Failed to download video'')
   \<and> transcripts_db (snd (run cfg_download_fails ticking_world)) = []"
proof -
  have f: "fetch_trending_keywords cfg_download_fails ticking_world = ([oid_str 0], keyword_world)"
    by (rule fetch_one_keyword) (simp add: cfg_download_fails_def)
  have s: "search_videos cfg_download_fails [oid_str 0]
             (log_info (Fetched (length [oid_str 0])) keyword_world)
      = (Inr [oid_str 1, oid_str 2], videos_world)"
    using search_two_videos [of cfg_download_fails] by (simp add: cfg_download_fails_def)
  have d: "download_videos cfg_download_fails [oid_str 1, oid_str 2]
             (log_info (Found (length [oid_str 1, oid_str 2])) videos_world)
      = Inl (CollaboratorError ''Failed to download video'')"
    by (simp add: download_videos_def log_info_def videos_world_def find_by_id_def find_one_def
        ObjectId_oid_str cfg_download_fails_def video_a_def)
  note r = run_download_error [OF f s d]
  have t: "transcripts_db (snd (run cfg_download_fails ticking_world)) = []"
    unfolding r by (simp add: log_info_def videos_world_def keyword_world_def ticking_world_def)
  have c: "download_video cfg_download_fails (yv_url video_a)
        = Inl (CollaboratorError ''Failed to download video'')"
      "download_video cfg_download_fails (yv_url video_b) = Inr ''downloads/B.mp4''"
    by (simp_all add: cfg_download_fails_def video_a_def video_b_def)
  show ?thesis using c d r t by (simp add: numeral_2_eq_2)
qed

































text \<open>
  A record whose metadata is \<open>None\<close> raises before the inner \<open>try\<close>; the exception ends
  the loop and the records after it are not looked at.
\<close>

lemma none_metadata_aborts_batch:
  "process_batch region platform [record_none_metadata, record_python] ids w
     = ((Some TypeError, ids), w)"
  by (simp add: process_keyword_def convert_metadata_def record_none_metadata_def)

theorem search_videos_constant_fields_witness:
  "\<exists>new. videos_db (snd (search_videos cfg_download_fails [oid_str 0]
              (log_info (Fetched 1) keyword_world)))
            = videos_db (log_info (Fetched 1) keyword_world) @ new
         \<and> length new = 2
         \<and> list_all (\<lambda>(i, d). video_language d = ''en'' \<and> video_category d = ''education'') new"
proof -
  have s: "search_videos cfg_download_fails [oid_str 0] (log_info (Fetched 1) keyword_world)
      = (Inr [oid_str 1, oid_str 2], videos_world)"
    by (rule search_two_videos) (simp add: cfg_download_fails_def)
  obtain new where n: "videos_db (snd (search_videos cfg_download_fails [oid_str 0]
              (log_info (Fetched 1) keyword_world)))
            = videos_db (log_info (Fetched 1) keyword_world) @ new"
      "list_all (\<lambda>(i, d). video_language d = ''en'' \<and> video_category d = ''education'') new"
    using search_videos_constant_fields [of cfg_download_fails "[oid_str 0]"
        "log_info (Fetched 1) keyword_world"] by blast
  have "length new = 2"
    using n(1) unfolding s
    by (auto simp: videos_world_def keyword_world_def ticking_world_def log_info_def)
  then show ?thesis using n by blast
qed

end
